theory Spec2Isabelle
  imports Main "HOL-Library.Multiset"
begin

section \<open>The client-side classifier (the anti-bot script)\<close>

subsection \<open>Ambient browser state\<close>

text \<open>
  The script reads \<open>navigator\<close>, \<open>window\<close>, \<open>document\<close> and \<open>screen\<close>. The record
  below holds exactly the properties it reads. A property tested only for truthiness is a
  \<open>bool\<close>; \<open>getAttribute\<close> gives \<open>null\<close> (\<open>None\<close>) or a string, and the empty string is
  falsy; \<open>navigator.languages\<close> may be undefined (\<open>None\<close>); \<open>navigator.permissions\<close>
  is \<open>None\<close> when falsy, and otherwise carries the state the query resolves to together
  with \<open>Notification.permission\<close>. \<open>audioThrows\<close> says whether the body of the
  \<open>try\<close> block of \<open>checkHeadlessBrowser\<close> throws. \<open>deviceMemory\<close> is the decimal
  rendering of the number (\<open>None\<close> when it is undefined or zero). Reading any of
  these properties is taken not to throw. \<open>sessionStorage\<close> is the truthiness of
  \<open>window.sessionStorage\<close>; \<open>setItemThrows\<close> says whether \<open>sessionStorage.setItem\<close>
  throws although the storage object is there (a full or disabled store).
\<close>

record environment =
  webdriver :: bool
  attrWebdriver :: "string option"
  attrSelenium :: "string option"
  attrDriver :: "string option"
  callPhantom :: bool
  underscorePhantom :: bool
  phantom :: bool
  nightmare :: bool
  domAutomation :: bool
  domAutomationController :: bool
  pluginsLength :: nat
  languages :: "string list option"
  ontouchstart :: bool
  maxTouchPoints :: nat
  userAgent :: string
  screenWidth :: int
  screenHeight :: int
  chrome :: bool
  permissions :: "(string \<times> string) option"
  audioThrows :: bool
  language :: string
  colorDepth :: int
  timezoneOffset :: int
  hardwareConcurrency :: nat
  deviceMemory :: "string option"
  localStorage :: bool
  sessionStorage :: bool
  indexedDB :: bool
  setItemThrows :: bool

subsection \<open>Page state\<close>

text \<open>
  Each call of \<open>checkBehaviorPatterns\<close> declares five local variables and registers
  listeners that close over them: a \<open>tracker\<close> is one such closure environment.
\<close>

record tracker =
  mouseMovements :: nat
  lastMouseX :: int
  lastMouseY :: int
  lastInputTime :: int
  suspiciousInputSpeed :: nat

text \<open>
  The submit listeners of a form, in the order of their registration: the one of
  \<open>addHoneypotFields\<close>, the one of \<open>applyTimingVariations\<close>, and one for each call of
  \<open>checkBehaviorPatterns\<close> (carrying the index of its tracker). Every registration runs
  over all forms of the document, so all forms hold the same list.
\<close>

datatype listener = HoneypotListener | TimingListener | BehaviorListener nat

record report =
  reportScore :: int
  reportFingerprint :: string
  reportTimestamp :: string

record page =
  botDetectionScore :: int
  trackers :: "tracker list"
  submitListeners :: "listener list"
  pendingPermission :: nat
  honeypots :: "string list"
  browserFingerprint :: "string option"
  reportInterval :: "string option"
  reports :: "report list"

definition BOT_THRESHOLD :: int where
  "BOT_THRESHOLD = 3"

definition addScore :: "int \<Rightarrow> page \<Rightarrow> page" where
  "addScore n p = p\<lparr>botDetectionScore := botDetectionScore p + n\<rparr>"

subsection \<open>The four signal groups\<close>

definition truthyAttr :: "string option \<Rightarrow> bool" where
  "truthyAttr a = (case a of None \<Rightarrow> False | Some s \<Rightarrow> s \<noteq> [])"

definition checkAutomationFlags :: "environment \<Rightarrow> page \<Rightarrow> page" where
  "checkAutomationFlags e p =
     (let p1 = (if webdriver e then addScore 2 p else p);
          p2 = (if truthyAttr (attrWebdriver e) \<or> truthyAttr (attrSelenium e)
                   \<or> truthyAttr (attrDriver e) then addScore 2 p1 else p1);
          p3 = (if callPhantom e \<or> underscorePhantom e \<or> phantom e
                then addScore 2 p2 else p2);
          p4 = (if nightmare e then addScore 2 p3 else p3)
      in if domAutomation e \<or> domAutomationController e then addScore 2 p4 else p4)"

text \<open>
  The test \<open>/Android|webOS|iPhone|iPad|iPod|BlackBerry|IEMobile|Opera Mini/i\<close>: some
  alternative occurs in the string, letters compared without case. Without the \<open>u\<close> flag
  no character outside ASCII folds to an ASCII letter, so the folding below is the whole of
  it.
\<close>

definition toLowerAscii :: "char \<Rightarrow> char" where
  "toLowerAscii c =
     (case map_of (zip ''ABCDEFGHIJKLMNOPQRSTUVWXYZ'' ''abcdefghijklmnopqrstuvwxyz'') c of
        None \<Rightarrow> c | Some d \<Rightarrow> d)"

fun startsWith :: "string \<Rightarrow> string \<Rightarrow> bool" where
  "startsWith [] s = True"
| "startsWith (c # pat) [] = False"
| "startsWith (c # pat) (d # s) = (toLowerAscii c = toLowerAscii d \<and> startsWith pat s)"

fun containsCI :: "string \<Rightarrow> string \<Rightarrow> bool" where
  "containsCI pat [] = startsWith pat []"
| "containsCI pat (d # s) = (startsWith pat (d # s) \<or> containsCI pat s)"

definition mobilePatterns :: "string list" where
  "mobilePatterns = [''Android'', ''webOS'', ''iPhone'', ''iPad'', ''iPod'', ''BlackBerry'',
     ''IEMobile'', ''Opera Mini'']"

definition isMobile :: "environment \<Rightarrow> bool" where
  "isMobile e = list_ex (\<lambda>pat. containsCI pat (userAgent e)) mobilePatterns"

definition hasTouch :: "environment \<Rightarrow> bool" where
  "hasTouch e = (ontouchstart e \<or> 0 < maxTouchPoints e)"

definition noLanguages :: "environment \<Rightarrow> bool" where
  "noLanguages e = (case languages e of None \<Rightarrow> True | Some ls \<Rightarrow> length ls = 0)"

definition checkBrowserConsistency :: "environment \<Rightarrow> page \<Rightarrow> page" where
  "checkBrowserConsistency e p =
     (let p1 = (if pluginsLength e = 0 then addScore 1 p else p);
          p2 = (if noLanguages e then addScore 1 p1 else p1);
          p3 = (if isMobile e \<and> \<not> hasTouch e then addScore 2 p2 else p2)
      in if screenWidth e < 2 \<or> screenHeight e < 2 then addScore 2 p3 else p3)"

text \<open>
  \<open>checkBehaviorPatterns\<close> adds nothing to the score itself. It declares fresh counters
  and registers a \<open>mousemove\<close> listener on the document, an \<open>input\<close> listener on every
  text and password input, and a \<open>submit\<close> listener on every form, all closing over the
  fresh counters.
\<close>

definition newTracker :: tracker where
  "newTracker = \<lparr>mouseMovements = 0, lastMouseX = 0, lastMouseY = 0, lastInputTime = 0,
     suspiciousInputSpeed = 0\<rparr>"

definition checkBehaviorPatterns :: "page \<Rightarrow> page" where
  "checkBehaviorPatterns p =
     p\<lparr>trackers := trackers p @ [newTracker],
       submitListeners := submitListeners p @ [BehaviorListener (length (trackers p))]\<rparr>"

text \<open>
  In \<open>checkHeadlessBrowser\<close> the permission query only registers a callback on a promise:
  the callback runs after the pass has returned. The \<open>catch\<close> block adds its weight
  within the pass.
\<close>

definition checkHeadlessBrowser :: "environment \<Rightarrow> page \<Rightarrow> page" where
  "checkHeadlessBrowser e p =
     (let p1 = (if \<not> chrome e then addScore 1 p else p);
          p2 = (case permissions e of None \<Rightarrow> p1
                | Some q \<Rightarrow> p1\<lparr>pendingPermission := Suc (pendingPermission p1)\<rparr>)
      in if audioThrows e then addScore 1 p2 else p2)"

definition detectBot :: "environment \<Rightarrow> page \<Rightarrow> bool \<times> page" where
  "detectBot e p =
     (let p0 = p\<lparr>botDetectionScore := 0\<rparr>;
          p1 = checkAutomationFlags e p0;
          p2 = checkBrowserConsistency e p1;
          p3 = checkBehaviorPatterns p2;
          p4 = checkHeadlessBrowser e p3
      in (BOT_THRESHOLD \<le> botDetectionScore p4, p4))"

subsection \<open>Fingerprint\<close>

text \<open>
  \<open>Array.prototype.join\<close> converts every component with \<open>ToString\<close>: an integer to
  its decimal digits, a boolean to \<open>true\<close> or \<open>false\<close>.
\<close>

function showNat :: "nat \<Rightarrow> string" where
  "showNat n =
     (if n < 10 then [''0123456789'' ! n]
      else showNat (n div 10) @ [''0123456789'' ! (n mod 10)])"
  by pat_completeness auto
termination
  by (relation "measure id") auto

declare showNat.simps [simp del]

definition showInt :: "int \<Rightarrow> string" where
  "showInt i = (if i < 0 then CHR ''-'' # showNat (nat (- i)) else showNat (nat i))"

definition showBool :: "bool \<Rightarrow> string" where
  "showBool b = (if b then ''true'' else ''false'')"

fun joinWith :: "string \<Rightarrow> string list \<Rightarrow> string" where
  "joinWith sep [] = []"
| "joinWith sep [x] = x"
| "joinWith sep (x # y # ys) = x @ sep @ joinWith sep (y # ys)"

definition components :: "environment \<Rightarrow> string list" where
  "components e =
     [userAgent e,
      language e,
      showInt (colorDepth e),
      showInt (timezoneOffset e),
      showInt (screenWidth e) @ ''x'' @ showInt (screenHeight e),
      (if hardwareConcurrency e = 0 then ''unknown'' else showNat (hardwareConcurrency e)),
      (case deviceMemory e of None \<Rightarrow> ''unknown'' | Some m \<Rightarrow> m),
      showBool (localStorage e),
      showBool (sessionStorage e),
      showBool (indexedDB e)]"

definition generateFingerprint :: "environment \<Rightarrow> string" where
  "generateFingerprint e = joinWith ''###'' (components e)"

subsection \<open>Initialisation\<close>

text \<open>
  The page before the script runs, for a document with \<open>n\<close> forms. \<open>honeypots\<close> holds
  the value of the decoy input of each form, in document order.
\<close>

definition initialPage :: "nat \<Rightarrow> page" where
  "initialPage n = \<lparr>botDetectionScore = 0, trackers = [], submitListeners = [],
     pendingPermission = 0, honeypots = replicate n [], browserFingerprint = None,
     reportInterval = None, reports = []\<rparr>"

definition addHoneypotFields :: "page \<Rightarrow> page" where
  "addHoneypotFields p = p\<lparr>submitListeners := submitListeners p @ [HoneypotListener]\<rparr>"

definition applyTimingVariations :: "page \<Rightarrow> page" where
  "applyTimingVariations p = p\<lparr>submitListeners := submitListeners p @ [TimingListener]\<rparr>"

text \<open>
  \<open>initAntiBotProtection\<close> registers the two submit listeners, computes the
  fingerprint, stores it with \<open>sessionStorage.setItem\<close> and then starts the interval.
  The call of \<open>setItem\<close> throws when \<open>window.sessionStorage\<close> is falsy (there is no
  object to call it on) and when the store refuses the write; nothing catches it, so the
  function ends there: the listeners stay registered, nothing is stored and the interval
  is never started. \<open>browserFingerprint\<close> is the stored item; \<open>reportInterval\<close> is
  \<open>None\<close> while no interval runs and otherwise holds the constant \<open>fingerprint\<close> the
  callback of the interval closes over.
\<close>

definition storesFingerprint :: "environment \<Rightarrow> bool" where
  "storesFingerprint e = (sessionStorage e \<and> \<not> setItemThrows e)"

definition initAntiBotProtection :: "environment \<Rightarrow> nat \<Rightarrow> page" where
  "initAntiBotProtection e n =
     (let p1 = addHoneypotFields (initialPage n);
          p2 = applyTimingVariations p1;
          fingerprint = generateFingerprint e
      in if storesFingerprint e
         then p2\<lparr>browserFingerprint := Some fingerprint, reportInterval := Some fingerprint\<rparr>
         else p2)"

subsection \<open>Events\<close>

text \<open>
  What the browser delivers to the script after initialisation: a \<open>mousemove\<close> at a
  position, an \<open>input\<close> event at a time (\<open>Date.now()\<close>), a value typed into the decoy
  field of a form, the \<open>submit\<close> of a form, a tick of the five-second interval (with the
  time stamp \<open>new Date().toISOString()\<close> would give), and the resolution of one pending
  permission query.
\<close>

datatype event =
  MouseMove int int
| InputEvent int
| SetHoneypot nat string
| Submit nat
| Tick string
| PermissionResolved

definition onMouseMove :: "int \<Rightarrow> int \<Rightarrow> tracker \<Rightarrow> tracker" where
  "onMouseMove x y t =
     (if x \<noteq> lastMouseX t \<or> y \<noteq> lastMouseY t
      then t\<lparr>mouseMovements := Suc (mouseMovements t), lastMouseX := x, lastMouseY := y\<rparr>
      else t)"

text \<open>The \<open>input\<close> listener of one tracker: the new tracker and what it adds to the score.\<close>

definition onInput :: "int \<Rightarrow> tracker \<Rightarrow> tracker \<times> int" where
  "onInput now t =
     (let fast = (0 < lastInputTime t \<and> now - lastInputTime t < 50);
          n = (if fast then Suc (suspiciousInputSpeed t) else suspiciousInputSpeed t)
      in (t\<lparr>suspiciousInputSpeed := n, lastInputTime := now\<rparr>,
          if fast \<and> 3 < n then 1 else 0))"

text \<open>
  The state of one \<open>submit\<close> event while its listeners run.
\<close>

record submitEvent =
  defaultPrevented :: bool
  alerted :: bool
  fetchScheduled :: bool

definition freshSubmit :: submitEvent where
  "freshSubmit = \<lparr>defaultPrevented = False, alerted = False, fetchScheduled = False\<rparr>"

text \<open>
  \<open>document.getElementById('website')\<close> is the first element of that id in the document:
  every decoy input has it, so it is the decoy of the first form. The timing listener
  runs \<open>detectBot\<close>; on a positive verdict it alerts, otherwise it schedules the fetch.
\<close>

fun runListener :: "environment \<Rightarrow> listener \<Rightarrow> submitEvent \<times> page \<Rightarrow> submitEvent \<times> page" where
  "runListener e HoneypotListener (ev, p) =
     (case honeypots p of
        [] \<Rightarrow> (ev, p)
      | h # hs \<Rightarrow> if h \<noteq> [] then (ev\<lparr>defaultPrevented := True\<rparr>, addScore 3 p) else (ev, p))"
| "runListener e TimingListener (ev, p) =
     (case detectBot e p of
        (True, p') \<Rightarrow> (ev\<lparr>defaultPrevented := True, alerted := True\<rparr>, p')
      | (False, p') \<Rightarrow> (ev\<lparr>defaultPrevented := True, fetchScheduled := True\<rparr>, p'))"
| "runListener e (BehaviorListener k) (ev, p) =
     (if k < length (trackers p) \<and> mouseMovements (trackers p ! k) < 5
      then (ev, addScore 1 p) else (ev, p))"

text \<open>
  The listeners that run are those registered when the dispatch starts: one added by a
  listener during the dispatch is not invoked for the same event.
\<close>

definition dispatchSubmit :: "environment \<Rightarrow> page \<Rightarrow> submitEvent \<times> page" where
  "dispatchSubmit e p = foldl (\<lambda>st l. runListener e l st) (freshSubmit, p) (submitListeners p)"

definition onTick :: "environment \<Rightarrow> string \<Rightarrow> page \<Rightarrow> page" where
  "onTick e ts p =
     (case reportInterval p of
        None \<Rightarrow> p
      | Some f \<Rightarrow>
          (case detectBot e p of
             (True, p') \<Rightarrow> p'\<lparr>reports := reports p' @
                [\<lparr>reportScore = botDetectionScore p', reportFingerprint = f,
                  reportTimestamp = ts\<rparr>]\<rparr>
           | (False, p') \<Rightarrow> p'))"

definition onPermission :: "environment \<Rightarrow> page \<Rightarrow> page" where
  "onPermission e p =
     (if pendingPermission p = 0 then p
      else let p1 = p\<lparr>pendingPermission := pendingPermission p - 1\<rparr>
           in if permissions e = Some (''denied'', ''default'') then addScore 1 p1 else p1)"

fun step :: "environment \<Rightarrow> page \<Rightarrow> event \<Rightarrow> page" where
  "step e p (MouseMove x y) = p\<lparr>trackers := map (onMouseMove x y) (trackers p)\<rparr>"
| "step e p (InputEvent now) =
     p\<lparr>trackers := map (\<lambda>t. fst (onInput now t)) (trackers p),
       botDetectionScore := botDetectionScore p
          + sum_list (map (\<lambda>t. snd (onInput now t)) (trackers p))\<rparr>"
| "step e p (SetHoneypot i v) =
     (if i < length (honeypots p) then p\<lparr>honeypots := (honeypots p)[i := v]\<rparr> else p)"
| "step e p (Submit i) = (if i < length (honeypots p) then snd (dispatchSubmit e p) else p)"
| "step e p (Tick ts) = onTick e ts p"
| "step e p PermissionResolved = onPermission e p"

definition run :: "environment \<Rightarrow> event list \<Rightarrow> page \<Rightarrow> page" where
  "run e evs p = foldl (step e) p evs"

section \<open>The relay (server.go)\<close>

subsection \<open>Requests, the outside world and the connection\<close>

record LoginRequest =
  Username :: string
  Password :: string
  SecurityAnswers :: "string list"

text \<open>
  \<open>Timestamp\<close> is a \<open>time.Time\<close>; the model holds it by its RFC 3339 rendering, the only
  way the handler reads it.
\<close>

record BotActivity =
  Score :: int
  Fingerprint :: string
  Timestamp :: string
  IP :: string

text \<open>
  What a handler reads of a request: the method, two headers (\<open>Header.Get\<close> gives the
  empty string for an absent one), the remote address, the outcome of \<open>r.ParseForm()\<close>
  (an error, or the lookup \<open>r.FormValue\<close> performs afterwards) and the outcome of
  \<open>io.ReadAll(r.Body)\<close>.
\<close>

record request =
  reqMethod :: string
  contentType :: string
  forwardedFor :: string
  remoteAddr :: string
  parseForm :: "string + (string \<Rightarrow> string)"
  readAll :: "string + string"

text \<open>
  What the handlers call outside the repository: the process environment, the clock
  (\<open>time.Now().Format(time.RFC3339)\<close>), \<open>http.PostForm\<close> (a transport error, or the
  status code and body of the answer), and \<open>encoding/json\<close> at the three types used
  (an error, or the decoded value; a decoded \<open>map[string]string\<close> is its lookup, which
  gives the empty string for a missing key) and for one string.
\<close>

record world =
  getenv :: "string \<Rightarrow> string"
  timeNow :: string
  postForm :: "string \<Rightarrow> (string \<times> string) list \<Rightarrow> string + (int \<times> string)"
  unmarshalLogin :: "string \<Rightarrow> string + LoginRequest"
  unmarshalMap :: "string \<Rightarrow> string + (string \<Rightarrow> string)"
  unmarshalActivity :: "string \<Rightarrow> string + BotActivity"
  marshalString :: "string \<Rightarrow> string"

text \<open>
  The response writer together with the two other effects of a handler: the lines it logs
  and the outbound calls it makes, both in order.
\<close>

record conn =
  respHeader :: "string \<rightharpoonup> string"
  statusCode :: "int option"
  written :: string
  logs :: "string list"
  calls :: "(string \<times> (string \<times> string) list) list"

definition newConn :: conn where
  "newConn = \<lparr>respHeader = Map.empty, statusCode = None, written = [], logs = [], calls = []\<rparr>"

definition setHeader :: "string \<Rightarrow> string \<Rightarrow> conn \<Rightarrow> conn" where
  "setHeader k v c = c\<lparr>respHeader := (respHeader c)(k \<mapsto> v)\<rparr>"

definition writeHeader :: "int \<Rightarrow> conn \<Rightarrow> conn" where
  "writeHeader code c = (if statusCode c = None then c\<lparr>statusCode := Some code\<rparr> else c)"

definition writeBody :: "string \<Rightarrow> conn \<Rightarrow> conn" where
  "writeBody b c = (writeHeader 200 c)\<lparr>written := written c @ b\<rparr>"

definition logPrint :: "string \<Rightarrow> conn \<Rightarrow> conn" where
  "logPrint l c = c\<lparr>logs := logs c @ [l]\<rparr>"

text \<open>\<open>http.Error\<close> and, for a request that is neither GET nor HEAD, \<open>http.Redirect\<close>.\<close>

definition httpError :: "string \<Rightarrow> int \<Rightarrow> conn \<Rightarrow> conn" where
  \<open>httpError msg code c =
     writeBody (msg @ ''\<newline>'')
       (writeHeader code
         (setHeader ''X-Content-Type-Options'' ''nosniff''
           (setHeader ''Content-Type'' ''text/plain; charset=utf-8''
             (c\<lparr>respHeader := (respHeader c)(''Content-Length'' := None)\<rparr>))))\<close>

definition httpRedirect :: "string \<Rightarrow> int \<Rightarrow> conn \<Rightarrow> conn" where
  "httpRedirect url code c = writeHeader code (setHeader ''Location'' url c)"

definition setCORS :: "conn \<Rightarrow> conn" where
  "setCORS c =
     setHeader ''Access-Control-Allow-Headers'' ''Content-Type''
       (setHeader ''Access-Control-Allow-Methods'' ''POST, OPTIONS''
         (setHeader ''Access-Control-Allow-Origin'' ''*'' c))"

subsection \<open>The client address\<close>

text \<open>\<open>strings.Split\<close> for a separator of one character: never an empty list.\<close>

fun stringsSplit :: "char \<Rightarrow> string \<Rightarrow> string list" where
  "stringsSplit sep [] = [[]]"
| "stringsSplit sep (c # cs) =
     (if c = sep then [] # stringsSplit sep cs
      else (case stringsSplit sep cs of [] \<Rightarrow> [[c]] | x # xs \<Rightarrow> (c # x) # xs))"

definition firstField :: "char \<Rightarrow> string \<Rightarrow> string" where
  "firstField sep s = (case stringsSplit sep s of [] \<Rightarrow> [] | x # xs \<Rightarrow> x)"

definition clientIP :: "request \<Rightarrow> string" where
  "clientIP r =
     (if forwardedFor r \<noteq> [] then firstField (CHR '','') (forwardedFor r)
      else firstField (CHR '':'') (remoteAddr r))"

subsection \<open>The outbound call\<close>

definition apiURL :: "string \<Rightarrow> string" where
  "apiURL botToken = ''https://api.telegram.org/bot'' @ botToken @ ''/sendMessage''"

definition telegramForm :: "string \<Rightarrow> string \<Rightarrow> (string \<times> string) list" where
  "telegramForm chatID txt = [(''chat_id'', chatID), (''text'', txt), (''parse_mode'', ''HTML'')]"

text \<open>The result is the error (\<open>None\<close> for \<open>nil\<close>) and the connection with the effects added.\<close>

definition sendTelegramMessage :: "world \<Rightarrow> string \<Rightarrow> conn \<Rightarrow> string option \<times> conn" where
  "sendTelegramMessage w txt c =
     (let botToken = getenv w ''TELEGRAM_BOT_TOKEN'';
          chatID = getenv w ''TELEGRAM_CHAT_ID''
      in if botToken = [] \<or> chatID = [] then (Some ''telegram credentials not set'', c)
         else
           let c1 = logPrint (''Sending Telegram message to URL: '' @ apiURL botToken) c;
               c2 = logPrint (''Message content: '' @ txt) c1;
               c3 = c2\<lparr>calls := calls c2 @ [(apiURL botToken, telegramForm chatID txt)]\<rparr>
           in (case postForm w (apiURL botToken) (telegramForm chatID txt) of
                 Inl err \<Rightarrow>
                   (Some (''telegram API request failed: '' @ err),
                    logPrint (''Telegram API request error: '' @ err) c3)
               | Inr (code, b) \<Rightarrow>
                   let c4 = logPrint (''Telegram API response status: '' @ showInt code
                              @ '', body: '' @ b) c3
                   in if code \<noteq> 200
                      then (Some (''telegram API returned non-200 status: '' @ showInt code
                              @ '', body: '' @ b), c4)
                      else (None, c4)))"

subsection \<open>The handlers\<close>

text \<open>The three pictographs of the messages, as their UTF-8 bytes.\<close>

definition siren :: string where
  "siren = [CHR 0xF0, CHR 0x9F, CHR 0x9A, CHR 0xA8]"

definition padlock :: string where
  "padlock = [CHR 0xF0, CHR 0x9F, CHR 0x94, CHR 0x90]"

definition robot :: string where
  "robot = [CHR 0xF0, CHR 0x9F, CHR 0xA4, CHR 0x96]"

definition loginMessage :: "string \<Rightarrow> string \<Rightarrow> string \<Rightarrow> string \<Rightarrow> string" where
  \<open>loginMessage username password ip timestamp =
     siren @ '' Login Attempt '' @ siren @ ''\<newline>\<newline>Username: '' @ username
       @ ''\<newline>Password: '' @ password @ ''\<newline>IP: '' @ ip
       @ ''\<newline>Timestamp: '' @ timestamp\<close>

definition securityMessage :: "string \<Rightarrow> string \<Rightarrow> string \<Rightarrow> string \<Rightarrow> string \<Rightarrow> string" where
  \<open>securityMessage answer1 answer2 answer3 ip timestamp =
     padlock @ '' Security Answers '' @ padlock @ ''\<newline>\<newline>Answer 1: '' @ answer1
       @ ''\<newline>Answer 2: '' @ answer2 @ ''\<newline>Answer 3: '' @ answer3
       @ ''\<newline>IP: '' @ ip @ ''\<newline>Timestamp: '' @ timestamp\<close>

definition activityMessage :: "int \<Rightarrow> string \<Rightarrow> string \<Rightarrow> string \<Rightarrow> string" where
  \<open>activityMessage score fingerprint ip timestamp =
     robot @ '' Bot Activity Detected '' @ robot @ ''\<newline>\<newline>Score: '' @ showInt score
       @ ''\<newline>Fingerprint: '' @ fingerprint @ ''\<newline>IP: '' @ ip
       @ ''\<newline>Timestamp: '' @ timestamp\<close>

definition loginErrorBody :: string where
  \<open>loginErrorBody = ''{"status": "error", "message": "Failed to send Telegram message"}''\<close>

definition loginSuccessBody :: "world \<Rightarrow> string \<Rightarrow> string" where
  \<open>loginSuccessBody w username =
     ''{"message":"Login attempt processed successfully","status":"success","username":''
       @ marshalString w username @ ''}''\<close>

definition securityErrorBody :: string where
  \<open>securityErrorBody = ''{"status": "error", "message": "Failed to process security answers"}''\<close>

definition securitySuccessBody :: string where
  \<open>securitySuccessBody =
     ''{"status": "success", "message": "Security answers processed successfully"}''\<close>

definition activitySuccessBody :: string where
  \<open>activitySuccessBody = ''{"status":"success"}''\<close>

definition loginHandler :: "world \<Rightarrow> request \<Rightarrow> conn" where
  "loginHandler w r =
     (let c = setCORS newConn in
      if reqMethod r = ''OPTIONS'' then writeHeader 200 c
      else if reqMethod r \<noteq> ''POST'' then httpError ''Method not allowed'' 405 c
      else if contentType r = ''application/x-www-form-urlencoded'' then
        (case parseForm r of
           Inl err \<Rightarrow> httpError ''Error parsing form data'' 400 c
         | Inr formValue \<Rightarrow>
             let username = formValue ''userId'';
                 password = formValue ''Passcode'';
                 message = loginMessage username password (clientIP r) (timeNow w)
             in (case sendTelegramMessage w message c of
                   (Some err, c1) \<Rightarrow>
                     httpRedirect ''/security.html'' 303
                       (logPrint (''Failed to send Telegram message: '' @ err) c1)
                 | (None, c1) \<Rightarrow> httpRedirect ''/security.html'' 303 c1))
      else if contentType r \<noteq> ''application/json''
        then httpError ''Content-Type must be application/json'' 415 c
      else
        (case readAll r of
           Inl err \<Rightarrow> httpError ''Error reading request body'' 400 c
         | Inr bodyBytes \<Rightarrow>
             let c1 = logPrint (''Raw request body: '' @ bodyBytes) c
             in (case unmarshalLogin w bodyBytes of
                   Inl err \<Rightarrow>
                     httpError (''Bad Request: Invalid JSON - '' @ err) 400
                       (logPrint (''JSON parse error: '' @ err) c1)
                 | Inr req \<Rightarrow>
                     if Username req = [] \<or> Password req = []
                     then httpError ''Username and password are required'' 400 c1
                     else
                       let message = loginMessage (Username req) (Password req) (clientIP r)
                                       (timeNow w);
                           c2 = logPrint (''Prepared Telegram message: '' @ message) c1;
                           c3 = logPrint ''Attempting to send Telegram message...'' c2
                       in (case sendTelegramMessage w message c3 of
                             (Some err, c4) \<Rightarrow>
                               writeBody loginErrorBody
                                 (writeHeader 500
                                   (setHeader ''Content-Type'' ''application/json''
                                     (logPrint (''Failed to send Telegram message: '' @ err) c4)))
                           | (None, c4) \<Rightarrow>
                               writeBody (loginSuccessBody w (Username req))
                                 (writeHeader 200
                                   (setHeader ''Content-Type'' ''application/json''
                                     (logPrint ''Telegram message sent successfully'' c4)))))))"

text \<open>
  The two ways \<open>securityHandler\<close> reads the three answers; \<open>Inl\<close> is the connection of
  the early return.
\<close>

definition securityAnswers :: "world \<Rightarrow> request \<Rightarrow> conn \<Rightarrow> conn + (string \<times> string \<times> string)" where
  "securityAnswers w r c =
     (if contentType r = ''application/x-www-form-urlencoded'' then
        (case parseForm r of
           Inl err \<Rightarrow> Inl (httpError ''Error parsing form data'' 400 c)
         | Inr formValue \<Rightarrow>
             Inr (formValue ''answer1'', formValue ''answer2'', formValue ''answer3''))
      else if contentType r = ''application/json'' then
        (case readAll r of
           Inl err \<Rightarrow> Inl (httpError ''Error reading request body'' 400 c)
         | Inr bodyBytes \<Rightarrow>
             (case unmarshalMap w bodyBytes of
                Inl err \<Rightarrow> Inl (httpError ''Invalid JSON'' 400 c)
              | Inr data \<Rightarrow> Inr (data ''answer1'', data ''answer2'', data ''answer3'')))
      else Inl (httpError ''Unsupported content type'' 415 c))"

definition securityHandler :: "world \<Rightarrow> request \<Rightarrow> conn" where
  "securityHandler w r =
     (let c = setCORS newConn in
      if reqMethod r = ''OPTIONS'' then writeHeader 200 c
      else if reqMethod r \<noteq> ''POST'' then httpError ''Method not allowed'' 405 c
      else
        (case securityAnswers w r c of
           Inl c1 \<Rightarrow> c1
         | Inr (answer1, answer2, answer3) \<Rightarrow>
             let message = securityMessage answer1 answer2 answer3 (clientIP r) (timeNow w)
             in (case sendTelegramMessage w message c of
                   (Some err, c1) \<Rightarrow>
                     writeBody securityErrorBody
                       (writeHeader 500
                         (setHeader ''Content-Type'' ''application/json''
                           (logPrint (''Failed to send security answers to Telegram: '' @ err)
                              c1)))
                 | (None, c1) \<Rightarrow>
                     writeBody securitySuccessBody
                       (writeHeader 200 (setHeader ''Content-Type'' ''application/json'' c1)))))"

definition logBotActivityHandler :: "world \<Rightarrow> request \<Rightarrow> conn" where
  "logBotActivityHandler w r =
     (let c = setCORS newConn in
      if reqMethod r = ''OPTIONS'' then writeHeader 200 c
      else if reqMethod r \<noteq> ''POST'' then httpError ''Method not allowed'' 405 c
      else
        (case readAll r of
           Inl err \<Rightarrow> httpError ''Error reading request body'' 400 c
         | Inr bodyBytes \<Rightarrow>
             (case unmarshalActivity w bodyBytes of
                Inl err \<Rightarrow>
                  httpError ''Invalid JSON'' 400
                    (logPrint (''JSON parse error for bot activity: '' @ err) c)
              | Inr decoded \<Rightarrow>
                  let activity = decoded\<lparr>IP := clientIP r\<rparr>;
                      c1 = logPrint (''Bot activity detected: Score='' @ showInt (Score activity)
                             @ '', Fingerprint='' @ Fingerprint activity
                             @ '', IP='' @ IP activity) c;
                      message = activityMessage (Score activity) (Fingerprint activity)
                                  (IP activity) (Timestamp activity);
                      c3 = (case sendTelegramMessage w message c1 of
                              (Some err, c2) \<Rightarrow>
                                logPrint (''Failed to send bot activity to Telegram: '' @ err) c2
                            | (None, c2) \<Rightarrow> c2)
                  in writeBody activitySuccessBody
                       (writeHeader 200 (setHeader ''Content-Type'' ''application/json'' c3)))))"

text \<open>
  \<open>main\<close> stops at start-up unless both credentials are set, and registers the three
  handlers under their paths (every other path goes to the file server, which is not
  modelled).
\<close>

definition credentialsSet :: "world \<Rightarrow> bool" where
  "credentialsSet w =
     (getenv w ''TELEGRAM_BOT_TOKEN'' \<noteq> [] \<and> getenv w ''TELEGRAM_CHAT_ID'' \<noteq> [])"

definition route :: "string \<Rightarrow> (world \<Rightarrow> request \<Rightarrow> conn) option" where
  "route path =
     (if path = ''/login'' then Some loginHandler
      else if path = ''/security'' then Some securityHandler
      else if path = ''/log-bot-activity'' then Some logBotActivityHandler
      else None)"

section \<open>The specification's reading of the classifier\<close>

text \<open>
  The signals that can fire while a pass runs, group by group, each with its weight: the
  condition of every \<open>if\<close> (and the \<open>catch\<close>) that adds to the score between the
  reset and the comparison with the threshold.
\<close>

definition automationSignals :: "environment \<Rightarrow> (bool \<times> int) list" where
  "automationSignals e =
     [(webdriver e, 2),
      (truthyAttr (attrWebdriver e) \<or> truthyAttr (attrSelenium e) \<or> truthyAttr (attrDriver e), 2),
      (callPhantom e \<or> underscorePhantom e \<or> phantom e, 2),
      (nightmare e, 2),
      (domAutomation e \<or> domAutomationController e, 2)]"

definition consistencySignals :: "environment \<Rightarrow> (bool \<times> int) list" where
  "consistencySignals e =
     [(pluginsLength e = 0, 1),
      (noLanguages e, 1),
      (isMobile e \<and> \<not> hasTouch e, 2),
      (screenWidth e < 2 \<or> screenHeight e < 2, 2)]"

definition headlessSignals :: "environment \<Rightarrow> (bool \<times> int) list" where
  "headlessSignals e = [(\<not> chrome e, 1), (audioThrows e, 1)]"

definition fired :: "(bool \<times> int) list \<Rightarrow> int list" where
  "fired sigs = map snd (filter fst sigs)"

definition firedWeights :: "environment \<Rightarrow> int list" where
  "firedWeights e =
     fired (automationSignals e) @ fired (consistencySignals e) @ fired (headlessSignals e)"

text \<open>
  The four groups as values, so that a pass can run them in any order: \<open>runChecks\<close>
  resets the score and runs the groups of a list from left to right.
\<close>

datatype signalGroup = AutomationFlags | BrowserConsistency | BehaviorPatterns | HeadlessBrowser

fun runCheck :: "environment \<Rightarrow> signalGroup \<Rightarrow> page \<Rightarrow> page" where
  "runCheck e AutomationFlags p = checkAutomationFlags e p"
| "runCheck e BrowserConsistency p = checkBrowserConsistency e p"
| "runCheck e BehaviorPatterns p = checkBehaviorPatterns p"
| "runCheck e HeadlessBrowser p = checkHeadlessBrowser e p"

definition runChecks :: "environment \<Rightarrow> signalGroup list \<Rightarrow> page \<Rightarrow> page" where
  "runChecks e gs p = foldl (\<lambda>q g. runCheck e g q) (p\<lparr>botDetectionScore := 0\<rparr>) gs"

definition sourceOrder :: "signalGroup list" where
  "sourceOrder = [AutomationFlags, BrowserConsistency, BehaviorPatterns, HeadlessBrowser]"

fun groupWeights :: "environment \<Rightarrow> signalGroup \<Rightarrow> int list" where
  "groupWeights e AutomationFlags = fired (automationSignals e)"
| "groupWeights e BrowserConsistency = fired (consistencySignals e)"
| "groupWeights e BehaviorPatterns = []"
| "groupWeights e HeadlessBrowser = fired (headlessSignals e)"

subsection \<open>Sample environments\<close>

text \<open>A desktop browser in which no signal fires, and two automated variants of it.\<close>

definition quietEnv :: environment where
  "quietEnv = \<lparr>webdriver = False, attrWebdriver = None, attrSelenium = None,
     attrDriver = None, callPhantom = False, underscorePhantom = False, phantom = False,
     nightmare = False, domAutomation = False, domAutomationController = False,
     pluginsLength = 5, languages = Some [''en-US'', ''en''], ontouchstart = False,
     maxTouchPoints = 0, userAgent = ''Mozilla/5.0'',
     screenWidth = 1920, screenHeight = 1080, chrome = True,
     permissions = Some (''granted'', ''granted''), audioThrows = False,
     language = ''en-US'', colorDepth = 24, timezoneOffset = -60, hardwareConcurrency = 8,
     deviceMemory = Some ''8'', localStorage = True, sessionStorage = True,
     indexedDB = True, setItemThrows = False\<rparr>"

definition oneMarkerEnv :: environment where
  "oneMarkerEnv = quietEnv\<lparr>webdriver := True\<rparr>"

definition twoMarkerEnv :: environment where
  "twoMarkerEnv = quietEnv\<lparr>webdriver := True, nightmare := True\<rparr>"

text \<open>The second of them without session storage.\<close>

definition noStorageEnv :: environment where
  "noStorageEnv = twoMarkerEnv\<lparr>sessionStorage := False\<rparr>"

text \<open>
  The page right after load with one form, and the same page after a value has been put
  into the decoy field.
\<close>

definition loadedPage :: page where
  "loadedPage = initAntiBotProtection quietEnv 1"

definition decoyFilledPage :: page where
  "decoyFilledPage = step quietEnv loadedPage (SetHoneypot 0 ''http://spam.example'')"

section \<open>Delivery, submissions and sample requests\<close>

text \<open>
  What \<open>sendTelegramMessage\<close> returns and adds for a text, read off a run on the empty
  connection: the error, the lines logged and the outbound calls made.
\<close>

definition deliveryError :: "world \<Rightarrow> string \<Rightarrow> string option" where
  "deliveryError w txt = fst (sendTelegramMessage w txt newConn)"

definition deliveryLogs :: "world \<Rightarrow> string \<Rightarrow> string list" where
  "deliveryLogs w txt = logs (snd (sendTelegramMessage w txt newConn))"

definition deliveryCalls :: "world \<Rightarrow> string \<Rightarrow> (string \<times> (string \<times> string) list) list" where
  "deliveryCalls w txt = calls (snd (sendTelegramMessage w txt newConn))"

text \<open>
  A well-formed submission to \<open>/login\<close>, in either encoding, with the user name and the
  password it carries: a POST whose body parses, in the JSON case with both fields
  non-empty.
\<close>

definition jsonSubmission :: "world \<Rightarrow> request \<Rightarrow> (string \<times> string) option" where
  "jsonSubmission w r =
     (case readAll r of
        Inl err \<Rightarrow> None
      | Inr bodyBytes \<Rightarrow>
          (case unmarshalLogin w bodyBytes of
             Inl err \<Rightarrow> None
           | Inr req \<Rightarrow>
               if reqMethod r = ''POST'' \<and> contentType r = ''application/json''
                  \<and> Username req \<noteq> [] \<and> Password req \<noteq> []
               then Some (Username req, Password req) else None))"

definition formSubmission :: "request \<Rightarrow> (string \<times> string) option" where
  "formSubmission r =
     (case parseForm r of
        Inl err \<Rightarrow> None
      | Inr formValue \<Rightarrow>
          if reqMethod r = ''POST'' \<and> contentType r = ''application/x-www-form-urlencoded''
          then Some (formValue ''userId'', formValue ''Passcode'') else None)"

subsection \<open>Sample worlds and requests\<close>

definition sampleGetenv :: "string \<Rightarrow> string" where
  "sampleGetenv k =
     (if k = ''TELEGRAM_BOT_TOKEN'' then ''TOKEN''
      else if k = ''TELEGRAM_CHAT_ID'' then ''CHAT'' else [])"

definition aliceBody :: string where
  \<open>aliceBody = ''{"username":"alice","password":"secret"}''\<close>

definition sampleActivity :: BotActivity where
  "sampleActivity = \<lparr>Score = 4, Fingerprint = ''fp'', Timestamp = ''2024-01-01T00:00:05Z'',
     IP = []\<rparr>"

text \<open>
  A world whose messaging API answers 200, and one whose transport fails. The decoders
  know one login body; every body decodes as a map without keys and as the sample
  activity.
\<close>

definition upWorld :: world where
  \<open>upWorld = \<lparr>getenv = sampleGetenv, timeNow = ''2024-01-01T00:00:00Z'',
     postForm = (\<lambda>u f. Inr (200, ''{"ok":true}'')),
     unmarshalLogin = (\<lambda>b. if b = aliceBody
        then Inr \<lparr>Username = ''alice'', Password = ''secret'', SecurityAnswers = []\<rparr>
        else Inl ''unexpected end of JSON input''),
     unmarshalMap = (\<lambda>b. Inr (\<lambda>k. [])),
     unmarshalActivity = (\<lambda>b. Inr sampleActivity),
     marshalString = (\<lambda>s. [CHR 0x22] @ s @ [CHR 0x22])\<rparr>\<close>

definition downWorld :: world where
  "downWorld = upWorld\<lparr>postForm := (\<lambda>u f. Inl ''dial tcp: i/o timeout'')\<rparr>"

definition formRequest :: "(string \<Rightarrow> string) \<Rightarrow> request" where
  "formRequest formValue = \<lparr>reqMethod = ''POST'',
     contentType = ''application/x-www-form-urlencoded'', forwardedFor = [],
     remoteAddr = ''203.0.113.7:51234'', parseForm = Inr formValue, readAll = Inr []\<rparr>"

definition jsonRequest :: "string \<Rightarrow> request" where
  "jsonRequest b = \<lparr>reqMethod = ''POST'', contentType = ''application/json'',
     forwardedFor = [], remoteAddr = ''203.0.113.7:51234'', parseForm = Inr (\<lambda>k. []),
     readAll = Inr b\<rparr>"

definition noUserForm :: "string \<Rightarrow> string" where
  "noUserForm k = (if k = ''Passcode'' then ''secret'' else [])"

definition aliceForm :: "string \<Rightarrow> string" where
  "aliceForm k = (if k = ''userId'' then ''alice'' else if k = ''Passcode'' then ''secret'' else [])"

definition fiveMoves :: "event list" where
  "fiveMoves = [MouseMove 1 1, MouseMove 2 2, MouseMove 3 3, MouseMove 4 4, MouseMove 5 5]"

text \<open>
  The stored item and the constant of the interval are there together or not at all; when
  they are, they are the fingerprint of the environment, and so is the fingerprint of
  every report; when they are not, there is no report.
\<close>

definition cached :: "environment \<Rightarrow> page \<Rightarrow> bool" where
  "cached e p =
     (browserFingerprint p = reportInterval p \<and>
      (case reportInterval p of
         None \<Rightarrow> reports p = []
       | Some f \<Rightarrow> f = generateFingerprint e) \<and>
      list_all (\<lambda>r. reportFingerprint r = generateFingerprint e) (reports p))"

section \<open>The classifier: one pass\<close>

text \<open>Each signal group in closed form: what it does to the page.\<close>

lemma checkAutomationFlags_eq:
  "checkAutomationFlags e p =
     p\<lparr>botDetectionScore := botDetectionScore p + sum_list (fired (automationSignals e))\<rparr>"
  by (cases p)
    (simp add: checkAutomationFlags_def automationSignals_def fired_def addScore_def Let_def)

lemma checkBrowserConsistency_eq:
  "checkBrowserConsistency e p =
     p\<lparr>botDetectionScore := botDetectionScore p + sum_list (fired (consistencySignals e))\<rparr>"
  by (cases p)
    (simp add: checkBrowserConsistency_def consistencySignals_def fired_def addScore_def Let_def)

lemma checkHeadlessBrowser_eq:
  "checkHeadlessBrowser e p =
     p\<lparr>botDetectionScore := botDetectionScore p + sum_list (fired (headlessSignals e)),
       pendingPermission := pendingPermission p + (if permissions e = None then 0 else 1)\<rparr>"
  by (cases p)
    (simp add: checkHeadlessBrowser_def headlessSignals_def fired_def addScore_def Let_def
      split: option.split)

text \<open>
  A pass in closed form. The score it leaves and its verdict do not mention the score it
  found: whatever a listener or a callback added since the previous pass is gone.
\<close>

lemma detectBot_eq:
  "detectBot e p =
     (3 \<le> sum_list (firedWeights e),
      p\<lparr>botDetectionScore := sum_list (firedWeights e),
        trackers := trackers p @ [newTracker],
        submitListeners := submitListeners p @ [BehaviorListener (length (trackers p))],
        pendingPermission := pendingPermission p + (if permissions e = None then 0 else 1)\<rparr>)"
  by (cases p)
    (simp add: detectBot_def Let_def checkAutomationFlags_eq checkBrowserConsistency_eq
      checkHeadlessBrowser_eq checkBehaviorPatterns_def firedWeights_def BOT_THRESHOLD_def
      add.assoc)

lemma automation_weights: "\<forall>x \<in> set (fired (automationSignals e)). x = 2"
  by (auto simp: fired_def automationSignals_def)

lemma sum_list_all_two: "\<forall>x \<in> set xs. x = (2::int) \<Longrightarrow> sum_list xs = 2 * int (length xs)"
  by (induction xs) auto

lemma sum_list_nonnegative: "\<forall>x \<in> set xs. (0::int) \<le> x \<Longrightarrow> 0 \<le> sum_list xs"
  by (induction xs) auto

lemma two_markers_suffice:
  assumes "2 \<le> length (fired (automationSignals e))"
  shows "3 \<le> sum_list (firedWeights e)"
proof -
  have a: "sum_list (fired (automationSignals e))
             = 2 * int (length (fired (automationSignals e)))"
    by (rule sum_list_all_two) (rule automation_weights)
  have b: "0 \<le> sum_list (fired (consistencySignals e))"
    by (rule sum_list_nonnegative) (auto simp: fired_def consistencySignals_def)
  have c: "0 \<le> sum_list (fired (headlessSignals e))"
    by (rule sum_list_nonnegative) (auto simp: fired_def headlessSignals_def)
  from a b c assms show ?thesis
    by (simp add: firedWeights_def)
qed

subsection \<open>The sample environments\<close>

lemma quiet_not_mobile: "\<not> isMobile quietEnv"
  by code_simp

lemma isMobile_userAgent: "userAgent e' = userAgent e \<Longrightarrow> isMobile e' = isMobile e"
  by (simp add: isMobile_def)

lemma quiet_consistency: "fired (consistencySignals quietEnv) = []"
  using quiet_not_mobile
  by (simp add: fired_def consistencySignals_def noLanguages_def) (simp add: quietEnv_def)

lemma quiet_fired: "firedWeights quietEnv = []"
proof -
  have "fired (automationSignals quietEnv) = []"
    by (simp add: fired_def automationSignals_def quietEnv_def truthyAttr_def)
  moreover have "fired (headlessSignals quietEnv) = []"
    by (simp add: fired_def headlessSignals_def quietEnv_def)
  ultimately show ?thesis
    by (simp add: firedWeights_def quiet_consistency)
qed

lemma oneMarker_consistency: "fired (consistencySignals oneMarkerEnv) = []"
proof -
  have "isMobile oneMarkerEnv = isMobile quietEnv"
    by (rule isMobile_userAgent) (simp add: oneMarkerEnv_def)
  with quiet_not_mobile have "\<not> isMobile oneMarkerEnv" by simp
  then show ?thesis
    by (simp add: fired_def consistencySignals_def noLanguages_def)
      (simp add: oneMarkerEnv_def quietEnv_def)
qed

lemma oneMarker_automation: "fired (automationSignals oneMarkerEnv) = [2]"
  by (simp add: fired_def automationSignals_def oneMarkerEnv_def quietEnv_def truthyAttr_def)

lemma oneMarker_fired: "firedWeights oneMarkerEnv = [2]"
proof -
  have "fired (headlessSignals oneMarkerEnv) = []"
    by (simp add: fired_def headlessSignals_def oneMarkerEnv_def quietEnv_def)
  then show ?thesis
    by (simp add: firedWeights_def oneMarker_consistency oneMarker_automation)
qed

lemma twoMarker_consistency: "fired (consistencySignals twoMarkerEnv) = []"
proof -
  have "isMobile twoMarkerEnv = isMobile quietEnv"
    by (rule isMobile_userAgent) (simp add: twoMarkerEnv_def)
  with quiet_not_mobile have "\<not> isMobile twoMarkerEnv" by simp
  then show ?thesis
    by (simp add: fired_def consistencySignals_def noLanguages_def)
      (simp add: twoMarkerEnv_def quietEnv_def)
qed

lemma twoMarker_automation: "fired (automationSignals twoMarkerEnv) = [2, 2]"
  by (simp add: fired_def automationSignals_def twoMarkerEnv_def quietEnv_def truthyAttr_def)

lemma twoMarker_fired: "firedWeights twoMarkerEnv = [2, 2]"
proof -
  have "fired (headlessSignals twoMarkerEnv) = []"
    by (simp add: fired_def headlessSignals_def twoMarkerEnv_def quietEnv_def)
  then show ?thesis
    by (simp add: firedWeights_def twoMarker_consistency twoMarker_automation)
qed

lemma loadedPage_eq:
  "loadedPage = \<lparr>botDetectionScore = 0, trackers = [],
     submitListeners = [HoneypotListener, TimingListener], pendingPermission = 0,
     honeypots = [[]], browserFingerprint = Some (generateFingerprint quietEnv),
     reportInterval = Some (generateFingerprint quietEnv), reports = []\<rparr>"
proof -
  have "storesFingerprint quietEnv"
    by (simp add: storesFingerprint_def quietEnv_def)
  then show ?thesis
    by (simp add: loadedPage_def initAntiBotProtection_def initialPage_def
        addHoneypotFields_def applyTimingVariations_def Let_def)
qed

lemma quiet_permissions: "permissions quietEnv \<noteq> None"
  by (simp add: quietEnv_def)

subsection \<open>Threshold\<close>

text \<open>
  C6. Whatever score a call of \<open>detectBot\<close> finds, the score it leaves is the sum of the
  weights of the signals that fire during the call, and it answers "bot" exactly when that
  sum reaches the threshold 3. So a pass in which nothing fires answers "not bot", a pass
  in which one automation marker (weight 2) and nothing else fires answers "not bot", and
  a pass in which at least two automation markers fire answers "bot".
\<close>

theorem detectBot_threshold:
  "botDetectionScore (snd (detectBot e p)) = sum_list (firedWeights e)
   \<and> fst (detectBot e p) = (BOT_THRESHOLD \<le> sum_list (firedWeights e))
   \<and> (firedWeights e = [] \<longrightarrow> \<not> fst (detectBot e p))
   \<and> (fired (automationSignals e) = [2] \<and> firedWeights e = [2] \<longrightarrow> \<not> fst (detectBot e p))
   \<and> (2 \<le> length (fired (automationSignals e)) \<longrightarrow> fst (detectBot e p))"
proof (intro conjI impI)
  show "botDetectionScore (snd (detectBot e p)) = sum_list (firedWeights e)"
    by (simp add: detectBot_eq)
  show "fst (detectBot e p) = (BOT_THRESHOLD \<le> sum_list (firedWeights e))"
    by (simp add: detectBot_eq BOT_THRESHOLD_def)
  show "\<not> fst (detectBot e p)" if "firedWeights e = []"
    using that by (simp add: detectBot_eq)
  show "\<not> fst (detectBot e p)" if "fired (automationSignals e) = [2] \<and> firedWeights e = [2]"
    using that by (simp add: detectBot_eq)
  show "fst (detectBot e p)" if "2 \<le> length (fired (automationSignals e))"
    using two_markers_suffice [OF that] by (simp add: detectBot_eq)
qed

theorem detectBot_threshold_witness:
  "firedWeights quietEnv = [] \<and> \<not> fst (detectBot quietEnv (addScore 3 loadedPage))
   \<and> fired (automationSignals oneMarkerEnv) = [2] \<and> firedWeights oneMarkerEnv = [2]
   \<and> \<not> fst (detectBot oneMarkerEnv loadedPage)
   \<and> 2 \<le> length (fired (automationSignals twoMarkerEnv))
   \<and> fst (detectBot twoMarkerEnv loadedPage)
   \<and> botDetectionScore (snd (detectBot twoMarkerEnv (addScore 3 loadedPage))) = 4"
  using detectBot_threshold [of quietEnv "addScore 3 loadedPage"]
    detectBot_threshold [of oneMarkerEnv loadedPage]
    detectBot_threshold [of twoMarkerEnv loadedPage]
    detectBot_threshold [of twoMarkerEnv "addScore 3 loadedPage"]
  by (simp add: quiet_fired oneMarker_fired oneMarker_automation twoMarker_fired
      twoMarker_automation BOT_THRESHOLD_def)

subsection \<open>Additivity and order\<close>

lemma score_runCheck:
  "botDetectionScore (runCheck e g p) = botDetectionScore p + sum_list (groupWeights e g)"
  by (cases g)
    (simp_all add: checkAutomationFlags_eq checkBrowserConsistency_eq checkHeadlessBrowser_eq
      checkBehaviorPatterns_def)

lemma score_foldl_runCheck:
  "botDetectionScore (foldl (\<lambda>q g. runCheck e g q) p gs)
     = botDetectionScore p + sum_list (map (\<lambda>g. sum_list (groupWeights e g)) gs)"
  by (induction gs arbitrary: p) (simp_all add: score_runCheck)

lemma score_runChecks:
  "botDetectionScore (runChecks e gs p) = sum_list (map (\<lambda>g. sum_list (groupWeights e g)) gs)"
  by (simp add: runChecks_def score_foldl_runCheck)

lemma runChecks_sourceOrder: "runChecks e sourceOrder p = snd (detectBot e p)"
  by (simp add: runChecks_def sourceOrder_def detectBot_def Let_def)

lemma sum_sourceOrder:
  "sum_list (map (\<lambda>g. sum_list (groupWeights e g)) sourceOrder) = sum_list (firedWeights e)"
  by (simp add: sourceOrder_def firedWeights_def)

text \<open>
  C7. Within one pass the weights only add up: run in the order of the source, the four
  groups leave the page \<open>detectBot\<close> leaves, and run in any other order (any permutation
  of the four groups) they leave the same score, which is the sum of the weights of all
  signals that fire. Every signal that fires counts with its full weight, whatever else
  fires and however high the score already is.
\<close>

theorem score_order_independent:
  assumes "mset gs = mset sourceOrder"
  shows "runChecks e sourceOrder p = snd (detectBot e p)
     \<and> botDetectionScore (runChecks e gs p) = botDetectionScore (snd (detectBot e p))
     \<and> botDetectionScore (runChecks e gs p) = sum_list (firedWeights e)"
proof -
  have "mset (map (\<lambda>g. sum_list (groupWeights e g)) gs)
      = mset (map (\<lambda>g. sum_list (groupWeights e g)) sourceOrder)"
    using assms by simp
  then have "sum_list (map (\<lambda>g. sum_list (groupWeights e g)) gs)
      = sum_list (map (\<lambda>g. sum_list (groupWeights e g)) sourceOrder)"
    by (metis sum_mset_sum_list)
  then show ?thesis
    by (simp add: score_runChecks detectBot_eq sum_sourceOrder runChecks_sourceOrder)
qed

theorem score_order_independent_witness:
  "mset [HeadlessBrowser, BehaviorPatterns, BrowserConsistency, AutomationFlags]
     = mset sourceOrder
   \<and> botDetectionScore
       (runChecks twoMarkerEnv
          [HeadlessBrowser, BehaviorPatterns, BrowserConsistency, AutomationFlags] loadedPage)
       = 4
   \<and> botDetectionScore (snd (detectBot twoMarkerEnv loadedPage)) = 4"
proof -
  have h: "mset [HeadlessBrowser, BehaviorPatterns, BrowserConsistency, AutomationFlags]
             = mset sourceOrder"
    by (simp add: sourceOrder_def)
  show ?thesis
    using h score_order_independent [OF h, of twoMarkerEnv loadedPage]
    by (simp add: twoMarker_fired)
qed

section \<open>The classifier: the page over time\<close>

subsection \<open>The decoy field\<close>

text \<open>
  On a page whose forms hold the listeners of the initialisation, the verdict of a submit
  and the score it leaves are those of the environment alone: the weight the decoy
  listener added is reset by the pass the next listener runs.
\<close>

lemma submit_after_load:
  assumes "submitListeners p = [HoneypotListener, TimingListener]"
  shows "alerted (fst (dispatchSubmit e p)) = (3 \<le> sum_list (firedWeights e))
     \<and> fetchScheduled (fst (dispatchSubmit e p)) = (\<not> 3 \<le> sum_list (firedWeights e))
     \<and> botDetectionScore (snd (dispatchSubmit e p)) = sum_list (firedWeights e)"
  using assms
  by (cases "honeypots p")
    (simp_all add: dispatchSubmit_def detectBot_eq freshSubmit_def addScore_def
      split: bool.split)

lemma decoyFilledPage_eq:
  "decoyFilledPage = loadedPage\<lparr>honeypots := [''http://spam.example'']\<rparr>"
  by (simp add: decoyFilledPage_def loadedPage_eq)

text \<open>
  C2, on the code: one form, an environment in which no signal fires, and a value in the
  decoy field. The decoy listener runs first and adds 3; the timing listener then runs
  \<open>detectBot\<close>, which resets the score, finds no signal and answers "not bot": no alert
  is raised, the fetch is scheduled, and the score after the submit is 0.
\<close>

theorem decoy_weight_reset_before_verdict:
  "honeypots decoyFilledPage = [''http://spam.example'']
   \<and> firedWeights quietEnv = []
   \<and> submitListeners decoyFilledPage = [HoneypotListener, TimingListener]
   \<and> botDetectionScore
        (snd (runListener quietEnv HoneypotListener (freshSubmit, decoyFilledPage))) = 3
   \<and> \<not> alerted (fst (dispatchSubmit quietEnv decoyFilledPage))
   \<and> fetchScheduled (fst (dispatchSubmit quietEnv decoyFilledPage))
   \<and> botDetectionScore (snd (dispatchSubmit quietEnv decoyFilledPage)) = 0"
proof -
  have l: "submitListeners decoyFilledPage = [HoneypotListener, TimingListener]"
    by (simp add: decoyFilledPage_eq loadedPage_eq)
  have h: "honeypots decoyFilledPage = [''http://spam.example'']"
    by (simp add: decoyFilledPage_eq)
  have s: "botDetectionScore
        (snd (runListener quietEnv HoneypotListener (freshSubmit, decoyFilledPage))) = 3"
    by (simp add: decoyFilledPage_eq loadedPage_eq addScore_def)
  from l h s submit_after_load [OF l, of quietEnv] show ?thesis
    by (simp add: quiet_fired)
qed

subsection \<open>The mouse counters\<close>

text \<open>
  C3, on the code. Right after load no counter exists. A submit then runs a pass whose
  score is 0 and whose verdict is "not bot", although the mouse has not moved: the pass
  only creates a counter and registers the listener that would add the weight at a later
  submit, and the score after the submit is still 0. A counter starts at 0 in the pass
  that creates it, whatever moved before: after five moves and a tick the counter of that
  tick holds 0, a submit then adds 1 (after the verdict of its own pass), and of two
  ticks with five moves between them the first counter holds 5 and the second 0.
\<close>

theorem mouse_weight_outside_pass:
  "trackers loadedPage = []
   \<and> detectBot quietEnv loadedPage
       = (False, loadedPage\<lparr>trackers := [newTracker],
            submitListeners := [HoneypotListener, TimingListener, BehaviorListener 0],
            pendingPermission := 1\<rparr>)
   \<and> \<not> alerted (fst (dispatchSubmit quietEnv loadedPage))
   \<and> botDetectionScore (snd (dispatchSubmit quietEnv loadedPage)) = 0
   \<and> map mouseMovements (trackers (run quietEnv (fiveMoves @ [Tick ''t1'']) loadedPage)) = [0]
   \<and> botDetectionScore (run quietEnv (fiveMoves @ [Tick ''t1'', Submit 0]) loadedPage) = 1
   \<and> map mouseMovements
        (trackers (run quietEnv ([Tick ''t1''] @ fiveMoves @ [Tick ''t2'']) loadedPage)) = [5, 0]"
  by (intro conjI)
    (simp_all add: loadedPage_eq dispatchSubmit_def detectBot_eq quiet_fired quiet_permissions
      addScore_def freshSubmit_def run_def fiveMoves_def onTick_def newTracker_def
      onMouseMove_def)

subsection \<open>The fingerprint\<close>

lemma runListener_keeps:
  "browserFingerprint (snd (runListener e l st)) = browserFingerprint (snd st) \<and>
   reportInterval (snd (runListener e l st)) = reportInterval (snd st) \<and>
   reports (snd (runListener e l st)) = reports (snd st)"
proof (cases st)
  case (Pair ev p)
  show ?thesis
  proof (cases l)
    case HoneypotListener
    with Pair show ?thesis by (simp add: addScore_def split: list.split)
  next
    case TimingListener
    with Pair show ?thesis by (simp add: detectBot_eq split: bool.split)
  next
    case (BehaviorListener k)
    with Pair show ?thesis by (simp add: addScore_def)
  qed
qed

lemma foldl_runListener_keeps:
  "browserFingerprint (snd (foldl (\<lambda>st l. runListener e l st) st ls))
     = browserFingerprint (snd st) \<and>
   reportInterval (snd (foldl (\<lambda>st l. runListener e l st) st ls))
     = reportInterval (snd st) \<and>
   reports (snd (foldl (\<lambda>st l. runListener e l st) st ls)) = reports (snd st)"
  by (induction ls arbitrary: st) (simp_all add: runListener_keeps)

lemma dispatchSubmit_keeps:
  "browserFingerprint (snd (dispatchSubmit e p)) = browserFingerprint p \<and>
   reportInterval (snd (dispatchSubmit e p)) = reportInterval p \<and>
   reports (snd (dispatchSubmit e p)) = reports p"
  using foldl_runListener_keeps [of e "(freshSubmit, p)" "submitListeners p"]
  by (simp add: dispatchSubmit_def)

lemma step_cached: "cached e p \<Longrightarrow> cached e (step e p ev)"
proof (cases ev)
  case (Submit i)
  assume "cached e p"
  with Submit dispatchSubmit_keeps [of e p] show ?thesis
    by (auto simp: cached_def split: option.splits)
next
  case (Tick ts)
  assume "cached e p"
  with Tick show ?thesis
    by (cases "reportInterval p")
      (simp_all add: cached_def onTick_def detectBot_eq split: bool.split)
next
  case PermissionResolved
  assume "cached e p"
  with PermissionResolved show ?thesis
    by (auto simp: cached_def onPermission_def addScore_def Let_def split: option.splits)
qed (auto simp: cached_def split: option.splits)

lemma step_keeps_interval: "reportInterval (step e p ev) = reportInterval p"
proof (cases ev)
  case (Submit i)
  with dispatchSubmit_keeps [of e p] show ?thesis by simp
next
  case (Tick ts)
  then show ?thesis
    by (cases "reportInterval p") (simp_all add: onTick_def detectBot_eq split: bool.split)
next
  case PermissionResolved
  then show ?thesis by (simp add: onPermission_def addScore_def Let_def)
qed simp_all

lemma run_cached: "cached e p \<Longrightarrow> cached e (run e evs p)"
  unfolding run_def by (induction evs arbitrary: p) (simp_all add: step_cached)

lemma run_keeps_interval: "reportInterval (run e evs p) = reportInterval p"
  unfolding run_def by (induction evs arbitrary: p) (simp_all add: step_keeps_interval)

lemma init_interval:
  "reportInterval (initAntiBotProtection e n)
     = (if storesFingerprint e then Some (generateFingerprint e) else None)"
  by (simp add: initAntiBotProtection_def initialPage_def addHoneypotFields_def
      applyTimingVariations_def Let_def)

lemma init_cached: "cached e (initAntiBotProtection e n)"
  by (simp add: cached_def initAntiBotProtection_def initialPage_def addHoneypotFields_def
      applyTimingVariations_def Let_def)

text \<open>
  C8. \<open>generateFingerprint\<close> reads the environment only, so for a fixed environment
  every call gives the same string: the ten attributes, rendered, joined with \<open>###\<close>.
  Over a page session, whatever events arrive: when the initialisation gets to store the
  fingerprint (session storage is there and takes the write), the stored item stays that
  string; in every case each report the page sends carries that string; and when the
  initialisation does not get to store it, nothing is stored and no report is ever sent.
\<close>

theorem fingerprint_stable:
  "browserFingerprint (run e evs (initAntiBotProtection e n))
     = (if storesFingerprint e then Some (generateFingerprint e) else None)
   \<and> (\<forall>r \<in> set (reports (run e evs (initAntiBotProtection e n))).
         reportFingerprint r = generateFingerprint e)
   \<and> (\<not> storesFingerprint e \<longrightarrow> reports (run e evs (initAntiBotProtection e n)) = [])
   \<and> generateFingerprint e =
       userAgent e @ ''###'' @ language e @ ''###'' @ showInt (colorDepth e) @ ''###''
         @ showInt (timezoneOffset e) @ ''###''
         @ showInt (screenWidth e) @ ''x'' @ showInt (screenHeight e) @ ''###''
         @ (if hardwareConcurrency e = 0 then ''unknown''
            else showNat (hardwareConcurrency e)) @ ''###''
         @ (case deviceMemory e of None \<Rightarrow> ''unknown'' | Some m \<Rightarrow> m) @ ''###''
         @ showBool (localStorage e) @ ''###'' @ showBool (sessionStorage e) @ ''###''
         @ showBool (indexedDB e)"
proof (intro conjI impI)
  have c: "cached e (run e evs (initAntiBotProtection e n))"
    by (rule run_cached [OF init_cached])
  have i: "reportInterval (run e evs (initAntiBotProtection e n))
             = (if storesFingerprint e then Some (generateFingerprint e) else None)"
    by (simp add: run_keeps_interval init_interval)
  show "browserFingerprint (run e evs (initAntiBotProtection e n))
          = (if storesFingerprint e then Some (generateFingerprint e) else None)"
    using c i by (simp add: cached_def)
  show "\<forall>r \<in> set (reports (run e evs (initAntiBotProtection e n))).
          reportFingerprint r = generateFingerprint e"
    using c by (simp add: cached_def list_all_iff)
  show "reports (run e evs (initAntiBotProtection e n)) = []" if "\<not> storesFingerprint e"
    using c i that by (simp add: cached_def)
  show "generateFingerprint e =
       userAgent e @ ''###'' @ language e @ ''###'' @ showInt (colorDepth e) @ ''###''
         @ showInt (timezoneOffset e) @ ''###''
         @ showInt (screenWidth e) @ ''x'' @ showInt (screenHeight e) @ ''###''
         @ (if hardwareConcurrency e = 0 then ''unknown''
            else showNat (hardwareConcurrency e)) @ ''###''
         @ (case deviceMemory e of None \<Rightarrow> ''unknown'' | Some m \<Rightarrow> m) @ ''###''
         @ showBool (localStorage e) @ ''###'' @ showBool (sessionStorage e) @ ''###''
         @ showBool (indexedDB e)"
    by (simp add: generateFingerprint_def components_def)
qed

lemma sample_storage: "storesFingerprint twoMarkerEnv" "\<not> storesFingerprint noStorageEnv"
  by (simp_all add: storesFingerprint_def noStorageEnv_def twoMarkerEnv_def quietEnv_def)

lemma twoMarker_reports:
  "reports (run twoMarkerEnv [Tick ''t1'', MouseMove 3 4, Tick ''t2'']
      (initAntiBotProtection twoMarkerEnv 2))
   = [\<lparr>reportScore = 4, reportFingerprint = generateFingerprint twoMarkerEnv,
        reportTimestamp = ''t1''\<rparr>,
      \<lparr>reportScore = 4, reportFingerprint = generateFingerprint twoMarkerEnv,
        reportTimestamp = ''t2''\<rparr>]"
  by (simp add: run_def onTick_def detectBot_eq twoMarker_fired initAntiBotProtection_def
      initialPage_def addHoneypotFields_def applyTimingVariations_def Let_def sample_storage)

lemma quiet_fingerprint:
  "generateFingerprint quietEnv
     = ''Mozilla/5.0###en-US###24###-60###1920x1080###8###8###true###true###true''"
  by code_simp

theorem fingerprint_stable_witness:
  "storesFingerprint twoMarkerEnv
   \<and> map reportFingerprint
       (reports (run twoMarkerEnv [Tick ''t1'', MouseMove 3 4, Tick ''t2'']
          (initAntiBotProtection twoMarkerEnv 2)))
       = [generateFingerprint twoMarkerEnv, generateFingerprint twoMarkerEnv]
   \<and> browserFingerprint (run twoMarkerEnv [Tick ''t1'', MouseMove 3 4, Tick ''t2'']
        (initAntiBotProtection twoMarkerEnv 2)) = Some (generateFingerprint twoMarkerEnv)
   \<and> \<not> storesFingerprint noStorageEnv
   \<and> browserFingerprint (run noStorageEnv [Tick ''t1'', Submit 0, Tick ''t2'']
        (initAntiBotProtection noStorageEnv 2)) = None
   \<and> reports (run noStorageEnv [Tick ''t1'', Submit 0, Tick ''t2'']
        (initAntiBotProtection noStorageEnv 2)) = []"
  using fingerprint_stable [of twoMarkerEnv "[Tick ''t1'', MouseMove 3 4, Tick ''t2'']" 2]
    fingerprint_stable [of noStorageEnv "[Tick ''t1'', Submit 0, Tick ''t2'']" 2]
  by (simp add: twoMarker_reports sample_storage)

section \<open>The relay\<close>

subsection \<open>The outbound call in closed form\<close>

lemma sendTelegramMessage_frame:
  "sendTelegramMessage w txt c =
     (deliveryError w txt,
      c\<lparr>logs := logs c @ deliveryLogs w txt, calls := calls c @ deliveryCalls w txt\<rparr>)"
  by (cases c)
    (simp add: sendTelegramMessage_def deliveryError_def deliveryLogs_def deliveryCalls_def
      newConn_def logPrint_def Let_def split: sum.split prod.split)

lemma deliveryCalls_eq:
  "deliveryCalls w txt =
     (if credentialsSet w
      then [(apiURL (getenv w ''TELEGRAM_BOT_TOKEN''),
             telegramForm (getenv w ''TELEGRAM_CHAT_ID'') txt)]
      else [])"
  by (simp add: deliveryCalls_def sendTelegramMessage_def credentialsSet_def newConn_def
      logPrint_def Let_def split: sum.split prod.split)

text \<open>
  The call fails when the credentials are missing, when the transport fails, and when
  the answer is not a 200.
\<close>

lemma deliveryError_eq:
  "deliveryError w txt =
     (if \<not> credentialsSet w then Some ''telegram credentials not set''
      else (case postForm w (apiURL (getenv w ''TELEGRAM_BOT_TOKEN''))
                   (telegramForm (getenv w ''TELEGRAM_CHAT_ID'') txt) of
              Inl err \<Rightarrow> Some (''telegram API request failed: '' @ err)
            | Inr (code, b) \<Rightarrow>
                if code \<noteq> 200
                then Some (''telegram API returned non-200 status: '' @ showInt code
                             @ '', body: '' @ b)
                else None))"
  by (simp add: deliveryError_def sendTelegramMessage_def credentialsSet_def newConn_def
      logPrint_def Let_def split: sum.split prod.split)

lemmas conn_simps = setCORS_def setHeader_def writeHeader_def writeBody_def logPrint_def
  httpError_def httpRedirect_def newConn_def

subsection \<open>The sample worlds and requests\<close>

lemma sample_credentials: "credentialsSet upWorld" "credentialsSet downWorld"
  by (simp_all add: credentialsSet_def upWorld_def downWorld_def sampleGetenv_def)

lemma sample_getenv:
  "getenv upWorld ''TELEGRAM_BOT_TOKEN'' = ''TOKEN''"
  "getenv upWorld ''TELEGRAM_CHAT_ID'' = ''CHAT''"
  "getenv downWorld ''TELEGRAM_BOT_TOKEN'' = ''TOKEN''"
  "getenv downWorld ''TELEGRAM_CHAT_ID'' = ''CHAT''"
  by (simp_all add: upWorld_def downWorld_def sampleGetenv_def)

lemma sample_timeNow:
  "timeNow upWorld = ''2024-01-01T00:00:00Z''" "timeNow downWorld = ''2024-01-01T00:00:00Z''"
  by (simp_all add: upWorld_def downWorld_def)

lemma up_delivers: "deliveryError upWorld txt = None"
  by (simp add: deliveryError_eq sample_credentials) (simp add: upWorld_def)

lemma down_fails:
  "deliveryError downWorld txt = Some ''telegram API request failed: dial tcp: i/o timeout''"
  by (simp add: deliveryError_eq sample_credentials) (simp add: downWorld_def upWorld_def)

lemma sample_clientIP:
  "clientIP (formRequest fv) = ''203.0.113.7''" "clientIP (jsonRequest b) = ''203.0.113.7''"
  by (simp_all add: clientIP_def firstField_def formRequest_def jsonRequest_def)

lemma alice_json:
  "jsonSubmission upWorld (jsonRequest aliceBody) = Some (''alice'', ''secret'')"
  "jsonSubmission downWorld (jsonRequest aliceBody) = Some (''alice'', ''secret'')"
  by (simp_all add: jsonSubmission_def jsonRequest_def upWorld_def downWorld_def)

lemma sample_forms:
  "formSubmission (formRequest aliceForm) = Some (''alice'', ''secret'')"
  "formSubmission (formRequest noUserForm) = Some ([], ''secret'')"
  by (simp_all add: formSubmission_def formRequest_def aliceForm_def noUserForm_def)

subsection \<open>Method gate\<close>

text \<open>
  C10. On each of the three registered paths, a request whose method is neither POST nor
  OPTIONS is answered 405 and no outbound call is made, and an OPTIONS request is answered
  200 with an empty body (and no outbound call either).
\<close>

theorem method_gate:
  assumes "route path = Some h"
  shows "(reqMethod r \<noteq> ''POST'' \<and> reqMethod r \<noteq> ''OPTIONS'' \<longrightarrow>
            statusCode (h w r) = Some 405 \<and> calls (h w r) = [])
       \<and> (reqMethod r = ''OPTIONS'' \<longrightarrow>
            statusCode (h w r) = Some 200 \<and> written (h w r) = [] \<and> calls (h w r) = [])"
proof -
  from assms consider "h = loginHandler" | "h = securityHandler" | "h = logBotActivityHandler"
    by (auto simp: route_def split: if_splits)
  then show ?thesis
  proof cases
    case 1
    then show ?thesis by (intro conjI impI) (simp_all add: loginHandler_def conn_simps)
  next
    case 2
    then show ?thesis by (intro conjI impI) (simp_all add: securityHandler_def conn_simps)
  next
    case 3
    then show ?thesis
      by (intro conjI impI) (simp_all add: logBotActivityHandler_def conn_simps)
  qed
qed

theorem method_gate_witness:
  "route ''/login'' = Some loginHandler
   \<and> route ''/security'' = Some securityHandler
   \<and> route ''/log-bot-activity'' = Some logBotActivityHandler
   \<and> statusCode (loginHandler upWorld ((jsonRequest aliceBody)\<lparr>reqMethod := ''GET''\<rparr>))
        = Some 405
   \<and> calls (loginHandler upWorld ((jsonRequest aliceBody)\<lparr>reqMethod := ''GET''\<rparr>)) = []
   \<and> statusCode (securityHandler upWorld ((jsonRequest aliceBody)\<lparr>reqMethod := ''PUT''\<rparr>))
        = Some 405
   \<and> statusCode
        (logBotActivityHandler upWorld ((jsonRequest aliceBody)\<lparr>reqMethod := ''DELETE''\<rparr>))
        = Some 405
   \<and> statusCode (loginHandler upWorld ((jsonRequest [])\<lparr>reqMethod := ''OPTIONS''\<rparr>))
        = Some 200
   \<and> written (securityHandler upWorld ((jsonRequest [])\<lparr>reqMethod := ''OPTIONS''\<rparr>)) = []
   \<and> statusCode
        (logBotActivityHandler upWorld ((jsonRequest [])\<lparr>reqMethod := ''OPTIONS''\<rparr>))
        = Some 200"
proof -
  have a: "route ''/login'' = Some loginHandler"
    and b: "route ''/security'' = Some securityHandler"
    and c: "route ''/log-bot-activity'' = Some logBotActivityHandler"
    by (simp_all add: route_def)
  show ?thesis
    using a b c
      method_gate [OF a, of "(jsonRequest aliceBody)\<lparr>reqMethod := ''GET''\<rparr>" upWorld]
      method_gate [OF b, of "(jsonRequest aliceBody)\<lparr>reqMethod := ''PUT''\<rparr>" upWorld]
      method_gate [OF c, of "(jsonRequest aliceBody)\<lparr>reqMethod := ''DELETE''\<rparr>" upWorld]
      method_gate [OF a, of "(jsonRequest [])\<lparr>reqMethod := ''OPTIONS''\<rparr>" upWorld]
      method_gate [OF b, of "(jsonRequest [])\<lparr>reqMethod := ''OPTIONS''\<rparr>" upWorld]
      method_gate [OF c, of "(jsonRequest [])\<lparr>reqMethod := ''OPTIONS''\<rparr>" upWorld]
    by simp
qed

subsection \<open>The suspicion report\<close>

text \<open>
  C5. A POST to \<open>/log-bot-activity\<close> whose body is read and decodes as a report is
  answered 200 with the JSON success body, whatever the outbound call does; when the
  call fails, the failure is the last line logged and nothing of it reaches the response.
\<close>

theorem activity_always_success:
  assumes "reqMethod r = ''POST''" and "readAll r = Inr b" and "unmarshalActivity w b = Inr a"
  shows "statusCode (logBotActivityHandler w r) = Some 200
     \<and> written (logBotActivityHandler w r) = activitySuccessBody
     \<and> respHeader (logBotActivityHandler w r) ''Content-Type'' = Some ''application/json''
     \<and> (\<forall>err. deliveryError w
                 (activityMessage (Score a) (Fingerprint a) (clientIP r) (Timestamp a))
                 = Some err \<longrightarrow>
           last (logs (logBotActivityHandler w r))
             = ''Failed to send bot activity to Telegram: '' @ err)"
  using assms
  by (intro conjI allI impI)
    (simp_all add: logBotActivityHandler_def sendTelegramMessage_frame conn_simps Let_def
      split: option.split)

theorem activity_always_success_witness:
  "reqMethod (jsonRequest ''{}'') = ''POST''
   \<and> readAll (jsonRequest ''{}'') = Inr ''{}''
   \<and> unmarshalActivity downWorld ''{}'' = Inr sampleActivity
   \<and> statusCode (logBotActivityHandler downWorld (jsonRequest ''{}'')) = Some 200
   \<and> written (logBotActivityHandler downWorld (jsonRequest ''{}'')) = activitySuccessBody
   \<and> last (logs (logBotActivityHandler downWorld (jsonRequest ''{}'')))
        = ''Failed to send bot activity to Telegram: ''
            @ ''telegram API request failed: dial tcp: i/o timeout''"
proof -
  have m: "reqMethod (jsonRequest ''{}'') = ''POST''"
    and b: "readAll (jsonRequest ''{}'') = Inr ''{}''"
    by (simp_all add: jsonRequest_def)
  have u: "unmarshalActivity downWorld ''{}'' = Inr sampleActivity"
    by (simp add: downWorld_def upWorld_def)
  show ?thesis
    using m b u activity_always_success [OF m b u] down_fails
    by simp
qed

subsection \<open>The security answers\<close>

text \<open>
  When \<open>securityHandler\<close> gets past its parsing step: a supported content type and a
  body that parses. Nothing else is asked of the answers.
\<close>

lemma securityAnswers_Inr:
  "securityAnswers w r c = Inr (a1, a2, a3) \<longleftrightarrow>
     (contentType r = ''application/x-www-form-urlencoded''
        \<and> (\<exists>fv. parseForm r = Inr fv
              \<and> a1 = fv ''answer1'' \<and> a2 = fv ''answer2'' \<and> a3 = fv ''answer3''))
     \<or> (contentType r = ''application/json''
        \<and> (\<exists>b d. readAll r = Inr b \<and> unmarshalMap w b = Inr d
              \<and> a1 = d ''answer1'' \<and> a2 = d ''answer2'' \<and> a3 = d ''answer3''))"
  by (auto simp: securityAnswers_def split: sum.splits)

text \<open>
  C9. \<open>/security\<close> does not look at the answers: for a POST in a supported encoding
  whose body parses, whatever the three answers are (all empty included), the handler
  makes exactly one outbound call, carrying the message built from them, and answers 200
  with the success body when the call succeeds. (The server only runs with both
  credentials set.)
\<close>

theorem security_no_validation:
  assumes "reqMethod r = ''POST''"
    and "securityAnswers w r (setCORS newConn) = Inr (a1, a2, a3)"
    and "credentialsSet w"
  shows "calls (securityHandler w r) =
           [(apiURL (getenv w ''TELEGRAM_BOT_TOKEN''),
             telegramForm (getenv w ''TELEGRAM_CHAT_ID'')
               (securityMessage a1 a2 a3 (clientIP r) (timeNow w)))]
     \<and> (deliveryError w (securityMessage a1 a2 a3 (clientIP r) (timeNow w)) = None \<longrightarrow>
           statusCode (securityHandler w r) = Some 200
           \<and> written (securityHandler w r) = securitySuccessBody)"
  using assms
  by (intro conjI impI)
    (simp_all add: securityHandler_def sendTelegramMessage_frame deliveryCalls_eq Let_def
      conn_simps split: option.split)

theorem security_no_validation_witness:
  "reqMethod (formRequest (\<lambda>k. [])) = ''POST''
   \<and> securityAnswers upWorld (formRequest (\<lambda>k. [])) (setCORS newConn) = Inr ([], [], [])
   \<and> credentialsSet upWorld
   \<and> calls (securityHandler upWorld (formRequest (\<lambda>k. []))) =
        [(apiURL ''TOKEN'',
          telegramForm ''CHAT'' (securityMessage [] [] [] ''203.0.113.7'' ''2024-01-01T00:00:00Z''))]
   \<and> statusCode (securityHandler upWorld (formRequest (\<lambda>k. []))) = Some 200
   \<and> written (securityHandler upWorld (formRequest (\<lambda>k. []))) = securitySuccessBody"
proof -
  have m: "reqMethod (formRequest (\<lambda>k. [])) = ''POST''"
    by (simp add: formRequest_def)
  have s: "securityAnswers upWorld (formRequest (\<lambda>k. [])) (setCORS newConn) = Inr ([], [], [])"
    by (simp add: securityAnswers_def formRequest_def)
  show ?thesis
    using m s sample_credentials(1) security_no_validation [OF m s sample_credentials(1)]
    by (simp add: up_delivers sample_clientIP sample_getenv sample_timeNow)
qed

subsection \<open>The login endpoint\<close>

text \<open>
  The JSON path of \<open>/login\<close> rejects an empty user name or password with a 400 before
  any outbound call.
\<close>

lemma login_json_validates:
  assumes "reqMethod r = ''POST''" and "contentType r = ''application/json''"
    and "readAll r = Inr b" and "unmarshalLogin w b = Inr req"
    and "Username req = [] \<or> Password req = []"
  shows "statusCode (loginHandler w r) = Some 400 \<and> calls (loginHandler w r) = []"
  using assms by (intro conjI) (simp_all add: loginHandler_def conn_simps Let_def)

text \<open>
  The form path has no such check and no error answer: whatever the two fields hold and
  whatever the outbound call does, the handler makes the call and redirects.
\<close>

lemma login_form_forwards:
  assumes "formSubmission r = Some (u, pw)"
  shows "statusCode (loginHandler w r) = Some 303
     \<and> written (loginHandler w r) = []
     \<and> respHeader (loginHandler w r) ''Location'' = Some ''/security.html''
     \<and> calls (loginHandler w r) = deliveryCalls w (loginMessage u pw (clientIP r) (timeNow w))"
proof -
  from assms obtain fv where "parseForm r = Inr fv" "reqMethod r = ''POST''"
    "contentType r = ''application/x-www-form-urlencoded''"
    "fv ''userId'' = u" "fv ''Passcode'' = pw"
    by (auto simp: formSubmission_def split: sum.splits if_splits)
  then show ?thesis
    by (intro conjI)
      (simp_all add: loginHandler_def sendTelegramMessage_frame conn_simps Let_def
        split: option.split)
qed

text \<open>
  C1, on the code: a form-encoded POST to \<open>/login\<close> with an empty \<open>userId\<close>. The
  handler answers 303, not a client error, and makes the outbound call with the empty
  user name in the message.
\<close>

theorem login_form_skips_validation:
  "formSubmission (formRequest noUserForm) = Some ([], ''secret'')
   \<and> statusCode (loginHandler upWorld (formRequest noUserForm)) = Some 303
   \<and> respHeader (loginHandler upWorld (formRequest noUserForm)) ''Location''
        = Some ''/security.html''
   \<and> calls (loginHandler upWorld (formRequest noUserForm)) =
        [(apiURL ''TOKEN'',
          telegramForm ''CHAT''
            (loginMessage [] ''secret'' ''203.0.113.7'' ''2024-01-01T00:00:00Z''))]"
  using login_form_forwards [OF sample_forms(2), of upWorld]
  by (simp add: sample_forms deliveryCalls_eq sample_credentials sample_getenv sample_clientIP
      sample_timeNow)

text \<open>
  C4 fails as stated: a well-formed form-encoded submission whose outbound call fails is
  answered with the 303 redirect and an empty body, the answer of a successful delivery.
\<close>

theorem login_form_failure_redirects:
  "formSubmission (formRequest aliceForm) = Some (''alice'', ''secret'')
   \<and> deliveryError downWorld
        (loginMessage ''alice'' ''secret'' (clientIP (formRequest aliceForm)) (timeNow downWorld))
        = Some ''telegram API request failed: dial tcp: i/o timeout''
   \<and> statusCode (loginHandler downWorld (formRequest aliceForm)) = Some 303
   \<and> written (loginHandler downWorld (formRequest aliceForm)) = []
   \<and> statusCode (loginHandler upWorld (formRequest aliceForm)) = Some 303"
  using login_form_forwards [OF sample_forms(1), of downWorld]
    login_form_forwards [OF sample_forms(1), of upWorld]
  by (simp add: sample_forms down_fails)

text \<open>
  C4 as amended. For a well-formed submission to \<open>/login\<close> whose outbound call fails
  (credentials missing, transport error, or an answer other than 200), the failure is
  the last line logged and the handler answers: for a JSON submission with a 500 and the
  generic JSON error body, for a form-encoded submission with the 303 redirect to
  \<open>/security.html\<close> and an empty body.
\<close>

theorem login_delivery_failure:
  assumes "deliveryError w (loginMessage u pw (clientIP r) (timeNow w)) = Some err"
  shows "(jsonSubmission w r = Some (u, pw) \<longrightarrow>
            statusCode (loginHandler w r) = Some 500
            \<and> written (loginHandler w r) = loginErrorBody
            \<and> respHeader (loginHandler w r) ''Content-Type'' = Some ''application/json''
            \<and> last (logs (loginHandler w r)) = ''Failed to send Telegram message: '' @ err)
       \<and> (formSubmission r = Some (u, pw) \<longrightarrow>
            statusCode (loginHandler w r) = Some 303
            \<and> written (loginHandler w r) = []
            \<and> respHeader (loginHandler w r) ''Location'' = Some ''/security.html''
            \<and> last (logs (loginHandler w r)) = ''Failed to send Telegram message: '' @ err)"
proof (intro conjI impI)
  assume "jsonSubmission w r = Some (u, pw)"
  then obtain b req where "readAll r = Inr b" "unmarshalLogin w b = Inr req"
    "reqMethod r = ''POST''" "contentType r = ''application/json''"
    "Username req = u" "Password req = pw" "u \<noteq> []" "pw \<noteq> []"
    by (auto simp: jsonSubmission_def split: sum.splits if_splits)
  with assms show "statusCode (loginHandler w r) = Some 500"
    "written (loginHandler w r) = loginErrorBody"
    "respHeader (loginHandler w r) ''Content-Type'' = Some ''application/json''"
    "last (logs (loginHandler w r)) = ''Failed to send Telegram message: '' @ err"
    by (simp_all add: loginHandler_def sendTelegramMessage_frame conn_simps Let_def)
next
  assume "formSubmission r = Some (u, pw)"
  then obtain fv where "parseForm r = Inr fv" "reqMethod r = ''POST''"
    "contentType r = ''application/x-www-form-urlencoded''"
    "fv ''userId'' = u" "fv ''Passcode'' = pw"
    by (auto simp: formSubmission_def split: sum.splits if_splits)
  with assms show "statusCode (loginHandler w r) = Some 303"
    "written (loginHandler w r) = []"
    "respHeader (loginHandler w r) ''Location'' = Some ''/security.html''"
    "last (logs (loginHandler w r)) = ''Failed to send Telegram message: '' @ err"
    by (simp_all add: loginHandler_def sendTelegramMessage_frame conn_simps Let_def)
qed

theorem login_delivery_failure_witness:
  "deliveryError downWorld (loginMessage ''alice'' ''secret'' ''203.0.113.7'' ''2024-01-01T00:00:00Z'')
     = Some ''telegram API request failed: dial tcp: i/o timeout''
   \<and> jsonSubmission downWorld (jsonRequest aliceBody) = Some (''alice'', ''secret'')
   \<and> statusCode (loginHandler downWorld (jsonRequest aliceBody)) = Some 500
   \<and> written (loginHandler downWorld (jsonRequest aliceBody)) = loginErrorBody
   \<and> last (logs (loginHandler downWorld (jsonRequest aliceBody)))
        = ''Failed to send Telegram message: ''
            @ ''telegram API request failed: dial tcp: i/o timeout''
   \<and> formSubmission (formRequest aliceForm) = Some (''alice'', ''secret'')
   \<and> statusCode (loginHandler downWorld (formRequest aliceForm)) = Some 303
   \<and> last (logs (loginHandler downWorld (formRequest aliceForm)))
        = ''Failed to send Telegram message: ''
            @ ''telegram API request failed: dial tcp: i/o timeout''"
proof -
  have d: "deliveryError downWorld
             (loginMessage ''alice'' ''secret'' (clientIP (jsonRequest aliceBody))
                (timeNow downWorld))
           = Some ''telegram API request failed: dial tcp: i/o timeout''"
    by (rule down_fails)
  have d': "deliveryError downWorld
             (loginMessage ''alice'' ''secret'' (clientIP (formRequest aliceForm))
                (timeNow downWorld))
           = Some ''telegram API request failed: dial tcp: i/o timeout''"
    by (rule down_fails)
  show ?thesis
    using login_delivery_failure [OF d] login_delivery_failure [OF d']
    by (simp add: alice_json sample_forms down_fails)
qed

end
